theory Spec2Isabelle
  imports Main "HOL-Library.AList"
begin

section \<open>Python values, exceptions and awaited calls\<close>

text \<open>
  Objects of the classes \<^verbatim>\<open>Component\<close>, the port classes and the connection classes
  define neither \<^verbatim>\<open>__eq__\<close> nor \<^verbatim>\<open>__hash__\<close>: they are compared and hashed by
  identity. An object is therefore named by a number, and the sets of ports and of
  connections the source keeps are sets of such numbers.
\<close>

type_synonym comp = nat
type_synonym port_id = nat
type_synonym conn_id = nat

text \<open>The exceptions the modelled code raises.\<close>

datatype error =
    TypeError
  | ValueError
  | AttributeError
  | KeyError
  | IndexError
  | NotImplementedError
  | PortNotExistingError
  | PortDisconnectedError
  | OutputOnlyError
  | InputOnlyError
  | PortClosedError
  | PortAlreadyExistingError
  | PacketOwnedError
  | StopAsyncIteration

text \<open>
  A call either returns, raises, or (for a coroutine) stays suspended at an
  \<^verbatim>\<open>await\<close> that cannot complete from the present state unless another task acts:
  \<^verbatim>\<open>Queue.get\<close> on an empty queue, \<^verbatim>\<open>Queue.put\<close> on a full one, \<^verbatim>\<open>Queue.join\<close>
  while items are unfinished.
\<close>

datatype 'a outcome = Returns 'a | Raises error | Suspends

section \<open>Packets\<close>

text \<open>
  Modelled from the spec: the module \<^verbatim>\<open>pyperator.IP\<close> (classes
  \<^verbatim>\<open>InformationPacket\<close> and \<^verbatim>\<open>EndOfStream\<close>) is not among the sources. The spec
  gives a packet a \<^verbatim>\<open>value\<close>, an \<^verbatim>\<open>owner\<close> (a component, or none) and the
  discriminant \<^verbatim>\<open>is_eos\<close>; \<^verbatim>\<open>EndOfStream\<close> is the variant with no payload. The
  calls in \<^verbatim>\<open>utils.py\<close> fix the constructor signatures:
  \<^verbatim>\<open>InformationPacket(value)\<close>, \<^verbatim>\<open>InformationPacket(value, owner=c)\<close> and
  \<^verbatim>\<open>EndOfStream()\<close>; a packet built without \<^verbatim>\<open>owner\<close> has none
  (\<^verbatim>\<open>OutputPort.close\<close> assigns the owner of a new \<^verbatim>\<open>EndOfStream()\<close> afterwards, and
  \<^verbatim>\<open>send_packet\<close> tests \<^verbatim>\<open>packet.owner == None\<close>).
\<close>

datatype 'v packet =
    InformationPacket (pvalue: 'v) (owner: "comp option")
  | EndOfStream (owner: "comp option")

fun is_eos :: "'v packet \<Rightarrow> bool" where
  "is_eos (InformationPacket v ow) = False"
| "is_eos (EndOfStream ow) = True"

text \<open>The assignment \<^verbatim>\<open>packet.owner = c\<close>.\<close>

fun set_owner :: "comp option \<Rightarrow> 'v packet \<Rightarrow> 'v packet" where
  "set_owner c (InformationPacket v ow) = InformationPacket v c"
| "set_owner c (EndOfStream ow) = EndOfStream c"

section \<open>The queue of a connection\<close>

text \<open>
  \<^verbatim>\<open>asyncio.Queue\<close>, as far as the source uses it: the items in FIFO order, the
  \<^verbatim>\<open>maxsize\<close> given at construction (no bound when it is not positive) and the count
  of unfinished tasks that \<^verbatim>\<open>put\<close> increments, \<^verbatim>\<open>task_done\<close> decrements and
  \<^verbatim>\<open>join\<close> waits on.
\<close>

record 'a queue =
  items :: "'a list"
  maxsize :: int
  unfinished_tasks :: nat

definition Queue :: "int \<Rightarrow> 'a queue" where
  "Queue sz = \<lparr>items = [], maxsize = sz, unfinished_tasks = 0\<rparr>"

definition full :: "'a queue \<Rightarrow> bool" where
  "full q = (if maxsize q \<le> 0 then False else maxsize q \<le> int (length (items q)))"

text \<open>\<^verbatim>\<open>put\<close> when there is room (the caller checks \<open>full\<close>).\<close>

definition put :: "'a \<Rightarrow> 'a queue \<Rightarrow> 'a queue" where
  "put x q = q\<lparr>items := items q @ [x], unfinished_tasks := Suc (unfinished_tasks q)\<rparr>"

text \<open>\<^verbatim>\<open>task_done\<close> raises \<^verbatim>\<open>ValueError\<close> when nothing is unfinished.\<close>

definition task_done :: "'a queue \<Rightarrow> 'a queue outcome" where
  "task_done q =
     (if unfinished_tasks q = 0 then Raises ValueError
      else Returns (q\<lparr>unfinished_tasks := unfinished_tasks q - 1\<rparr>))"

text \<open>\<^verbatim>\<open>join\<close> completes at once exactly when no task is unfinished.\<close>

definition join_completes :: "'a queue \<Rightarrow> bool" where
  "join_completes q = (unfinished_tasks q = 0)"

section \<open>Connections\<close>

text \<open>
  \<^verbatim>\<open>Connection.__init__\<close>: no queue yet, no source, no destination.
\<close>

record 'v connection =
  queue :: "'v packet queue option"
  source :: "port_id set"
  destination :: "port_id set"

definition Connection :: "'v connection" where
  "Connection = \<lparr>queue = None, source = {}, destination = {}\<rparr>"

text \<open>
  \<^verbatim>\<open>IIPConnection.__init__(value)\<close>. The one place that constructs an
  \<^verbatim>\<open>IIPConnection\<close>, \<^verbatim>\<open>InputPort.set_initial_packet\<close>, passes a packet as the value,
  and \<^verbatim>\<open>InputPort.receive_packet\<close> reads \<^verbatim>\<open>is_eos\<close> from what \<^verbatim>\<open>receive\<close>
  returns; the value is a packet here. The attribute \<^verbatim>\<open>source\<close> exists only after
  \<^verbatim>\<open>connect\<close>.
\<close>

record 'v iip_connection =
  ivalue :: "'v packet"
  idestination :: "port_id set"
  n_rec :: int
  isource :: "'v packet set option"

definition IIPConnection :: "'v packet \<Rightarrow> 'v iip_connection" where
  "IIPConnection v = \<lparr>ivalue = v, idestination = {}, n_rec = 1, isource = None\<rparr>"

text \<open>\<^verbatim>\<open>IIPConnection.receive\<close>: never suspends.\<close>

definition IIPConnection_receive :: "'v iip_connection \<Rightarrow> 'v packet \<times> 'v iip_connection" where
  "IIPConnection_receive k =
     (if n_rec k \<le> 0 then (EndOfStream None, k)
      else (ivalue k, k\<lparr>n_rec := n_rec k - 1\<rparr>))"

text \<open>\<^verbatim>\<open>IIPConnection.connect(destination, size=-1)\<close>.\<close>

definition IIPConnection_connect :: "port_id \<Rightarrow> 'v iip_connection \<Rightarrow> 'v iip_connection" where
  "IIPConnection_connect d k =
     k\<lparr>isource := Some {ivalue k}, idestination := insert d (idestination k)\<rparr>"

text \<open>Polling a constant connection \<open>n\<close> times, the results in order.\<close>

fun poll :: "nat \<Rightarrow> 'v iip_connection \<Rightarrow> 'v packet list \<times> 'v iip_connection" where
  "poll 0 k = ([], k)"
| "poll (Suc n) k =
     (let (p, k1) = IIPConnection_receive k;
          (ps, k2) = poll n k1
      in (p # ps, k2))"


text \<open>A connection object is of one of the two classes; \<^verbatim>\<open>conn.receive()\<close> dispatches.\<close>

datatype 'v conn_obj = Conn "'v connection" | IIP "'v iip_connection"

text \<open>
  \<^verbatim>\<open>Connection.receive\<close>, with the connection it leaves: \<^verbatim>\<open>get\<close> suspends on an
  empty queue; otherwise the head is removed and \<^verbatim>\<open>task_done\<close> is called at once
  (when that raises, the head is gone all the same). A connection never connected has
  \<^verbatim>\<open>_queue = None\<close>, and the attribute access on it raises.
\<close>

definition Connection_receive :: "'v connection \<Rightarrow> 'v packet outcome \<times> 'v connection" where
  "Connection_receive k =
     (case queue k of
        None \<Rightarrow> (Raises AttributeError, k)
      | Some q \<Rightarrow>
          (case items q of
             [] \<Rightarrow> (Suspends, k)
           | x # xs \<Rightarrow>
               (case task_done (q\<lparr>items := xs\<rparr>) of
                  Returns q1 \<Rightarrow> (Returns x, k\<lparr>queue := Some q1\<rparr>)
                | Raises e \<Rightarrow> (Raises e, k\<lparr>queue := Some (q\<lparr>items := xs\<rparr>)\<rparr>)
                | Suspends \<Rightarrow> (Suspends, k\<lparr>queue := Some (q\<lparr>items := xs\<rparr>)\<rparr>))))"

definition receive :: "'v conn_obj \<Rightarrow> 'v packet outcome \<times> 'v conn_obj" where
  "receive ob =
     (case ob of
        Conn k \<Rightarrow> (let (r, k1) = Connection_receive k in (r, Conn k1))
      | IIP k \<Rightarrow> (let (x, k1) = IIPConnection_receive k in (Returns x, IIP k1)))"

text \<open>
  The property \<^verbatim>\<open>ConnectionInterface.capacity\<close>. Every \<^verbatim>\<open>asyncio.Queue\<close> object is
  true in a condition (the class has neither \<^verbatim>\<open>__bool__\<close> nor \<^verbatim>\<open>__len__\<close>), and
  its \<^verbatim>\<open>maxsize\<close> is a property, an \<^verbatim>\<open>int\<close>: the call \<^verbatim>\<open>self._queue.maxsize()\<close>
  calls an \<^verbatim>\<open>int\<close>, which raises \<^verbatim>\<open>TypeError\<close>.
\<close>

definition call_int :: "int \<Rightarrow> int outcome" where
  "call_int n = Raises TypeError"

definition capacity :: "'v connection \<Rightarrow> int outcome" where
  "capacity k =
     (case queue k of
        Some q \<Rightarrow> call_int (maxsize q)
      | None \<Rightarrow> Returns (- 1))"

section \<open>Ports\<close>

text \<open>
  \<^verbatim>\<open>port.connections\<close> is the set built by \<^verbatim>\<open>PortInterface.__init__\<close>, except
  after \<^verbatim>\<open>InputPort.disconnect_all\<close>, which stores the empty list \<^verbatim>\<open>[]\<close>. A list
  has no method \<^verbatim>\<open>add\<close>, so that list stays empty.
\<close>

datatype conn_coll = PySet "conn_id set" | PyEmptyList

fun members :: "conn_coll \<Rightarrow> conn_id set" where
  "members (PySet S) = S"
| "members PyEmptyList = {}"

text \<open>\<^verbatim>\<open>coll.add(c)\<close>.\<close>

fun coll_add :: "conn_id \<Rightarrow> conn_coll \<Rightarrow> conn_coll outcome" where
  "coll_add c (PySet S) = Returns (PySet (insert c S))"
| "coll_add c PyEmptyList = Raises AttributeError"

text \<open>
  \<^verbatim>\<open>PortInterface.__init__(name, component=None, optional=False)\<close>. The field
  \<open>iip\<close> is \<^verbatim>\<open>_iip\<close>, which is \<^verbatim>\<open>None\<close> (false) or \<^verbatim>\<open>True\<close>.
\<close>

record port =
  name :: string
  component :: "comp option"
  "open" :: bool
  iip :: bool
  optional :: bool
  connections :: conn_coll

definition PortInterface :: "string \<Rightarrow> comp option \<Rightarrow> bool \<Rightarrow> port" where
  "PortInterface nm c opt =
     \<lparr>name = nm, component = c, open = True, iip = False, optional = opt,
      connections = PySet {}\<rparr>"

text \<open>The property \<^verbatim>\<open>is_connected\<close>: \<^verbatim>\<open>len(self.connections) > 0\<close>.\<close>

definition is_connected :: "port \<Rightarrow> bool" where
  "is_connected p = (members (connections p) \<noteq> {})"

section \<open>The store\<close>

text \<open>
  Ports and connections are shared, mutable objects: a connection is held by the ports
  at both ends. The store maps each identity to the object; \<open>next_conn\<close> is the first
  identity not yet given to a connection.

  Of a component the modelled code reads two attributes, \<^verbatim>\<open>log\<close> and \<^verbatim>\<open>name\<close>.
  Every component has a \<^verbatim>\<open>name\<close> (\<^verbatim>\<open>Component.__init__\<close> sets it), but the class
  \<^verbatim>\<open>Component\<close> of \<^verbatim>\<open>nodes.py\<close> defines no attribute \<^verbatim>\<open>log\<close>: \<open>has_log c\<close> says
  whether the component \<open>c\<close> has one (as an object of a subclass that defines it has),
  and it is false for a plain \<^verbatim>\<open>Component\<close>.

  \<open>first_port S\<close> is the port that Python's iteration over the set \<open>S\<close> of ports
  yields first.
\<close>

record 'v state =
  ports :: "port_id \<Rightarrow> port"
  conns :: "conn_id \<Rightarrow> 'v conn_obj"
  next_conn :: conn_id
  has_log :: "comp \<Rightarrow> bool"
  first_port :: "port_id set \<Rightarrow> port_id"

text \<open>
  The property \<^verbatim>\<open>log\<close> of a port returns \<^verbatim>\<open>self.component.log.getChild(self.name)\<close>
  when the port has a component, which raises \<^verbatim>\<open>AttributeError\<close> when the component
  has no attribute \<^verbatim>\<open>log\<close>, and \<^verbatim>\<open>None\<close> when the port has no component; a call
  such as \<^verbatim>\<open>self.log.debug(...)\<close> on \<^verbatim>\<open>None\<close> raises \<^verbatim>\<open>AttributeError\<close> too.
  Otherwise the call has no effect on the state modelled here.
\<close>

definition log_call :: "'v state \<Rightarrow> port \<Rightarrow> unit outcome" where
  "log_call s p =
     (case component p of
        None \<Rightarrow> Raises AttributeError
      | Some c \<Rightarrow> if has_log s c then Returns () else Raises AttributeError)"

text \<open>
  \<^verbatim>\<open>PortInterface.__str__\<close> formats \<^verbatim>\<open>{component.name}\<close>, which raises
  \<^verbatim>\<open>AttributeError\<close> on a port with no component.
\<close>

definition str_port :: "port \<Rightarrow> unit outcome" where
  "str_port p = (if component p = None then Raises AttributeError else Returns ())"

text \<open>Constructing an object: \<^verbatim>\<open>Connection()\<close> or \<^verbatim>\<open>IIPConnection(value)\<close>.\<close>

definition new_conn_obj :: "'v conn_obj \<Rightarrow> 'v state \<Rightarrow> conn_id \<times> 'v state" where
  "new_conn_obj ob s =
     (next_conn s, s\<lparr>conns := (conns s)(next_conn s := ob), next_conn := Suc (next_conn s)\<rparr>)"

text \<open>The statement \<^verbatim>\<open>p.connections.add(c)\<close>.\<close>

definition add_connection :: "port_id \<Rightarrow> conn_id \<Rightarrow> 'v state \<Rightarrow> unit outcome \<times> 'v state" where
  "add_connection p c s =
     (case coll_add c (connections (ports s p)) of
        Returns cl \<Rightarrow> (Returns (), s\<lparr>ports := (ports s)(p := (ports s p)\<lparr>connections := cl\<rparr>)\<rparr>)
      | Raises e \<Rightarrow> (Raises e, s)
      | Suspends \<Rightarrow> (Suspends, s))"

text \<open>
  \<^verbatim>\<open>c.connect(source, destination, size=sz)\<close>. On a \<^verbatim>\<open>Connection\<close> that already
  has a destination the code evaluates \<^verbatim>\<open>size == self.capacity()\<close>: \<^verbatim>\<open>capacity\<close> is
  a property, so this reads the property and then calls its value, an \<^verbatim>\<open>int\<close>.
  On an \<^verbatim>\<open>IIPConnection\<close> the call has the wrong arguments for
  \<^verbatim>\<open>connect(destination, size=-1)\<close>.
\<close>

definition Connection_connect ::
  "conn_id \<Rightarrow> port_id \<Rightarrow> port_id \<Rightarrow> int \<Rightarrow> 'v state \<Rightarrow> unit outcome \<times> 'v state" where
  "Connection_connect c src dst sz s =
     (case conns s c of
        IIP k \<Rightarrow> (Raises TypeError, s)
      | Conn k \<Rightarrow>
          (case
             (if destination k \<noteq> {} then
                (case (case capacity k of
                         Returns f \<Rightarrow> call_int f
                       | Raises e \<Rightarrow> Raises e
                       | Suspends \<Rightarrow> Suspends) of
                   Returns cap \<Rightarrow>
                     if sz = cap
                     then (Returns (),
                           s\<lparr>conns := (conns s)(c := Conn (k\<lparr>source := insert src (source k),
                                 destination := insert dst (destination k)\<rparr>))\<rparr>)
                     else (Raises ValueError, s)
                 | Raises e \<Rightarrow> (Raises e, s)
                 | Suspends \<Rightarrow> (Suspends, s))
              else (Returns (),
                    s\<lparr>conns := (conns s)(c := Conn \<lparr>queue = Some (Queue sz),
                          source = insert src (source k),
                          destination = insert dst (destination k)\<rparr>)\<rparr>)) of
             (Returns u, s1) \<Rightarrow>
               (case add_connection dst c s1 of
                  (Returns u, s2) \<Rightarrow> add_connection src c s2
                | (Raises e, s2) \<Rightarrow> (Raises e, s2)
                | (Suspends, s2) \<Rightarrow> (Suspends, s2))
           | (Raises e, s1) \<Rightarrow> (Raises e, s1)
           | (Suspends, s1) \<Rightarrow> (Suspends, s1)))"

text \<open>\<^verbatim>\<open>OutputPort.connect(other, size=-1)\<close> and \<^verbatim>\<open>InputPort.connect(other, size=-1)\<close>.\<close>

definition OutputPort_connect ::
  "port_id \<Rightarrow> port_id \<Rightarrow> int \<Rightarrow> 'v state \<Rightarrow> unit outcome \<times> 'v state" where
  "OutputPort_connect self other sz s =
     (let (new_conn, s1) = new_conn_obj (Conn Connection) s
      in Connection_connect new_conn self other sz s1)"

definition InputPort_connect ::
  "port_id \<Rightarrow> port_id \<Rightarrow> int \<Rightarrow> 'v state \<Rightarrow> unit outcome \<times> 'v state" where
  "InputPort_connect self other sz s =
     (let (new_conn, s1) = new_conn_obj (Conn Connection) s
      in Connection_connect new_conn other self sz s1)"

text \<open>\<^verbatim>\<open>InputPort.set_initial_packet(value)\<close>.\<close>

definition set_initial_packet :: "port_id \<Rightarrow> 'v \<Rightarrow> 'v state \<Rightarrow> unit outcome \<times> 'v state" where
  "set_initial_packet self v s =
     (let packet = InformationPacket v (component (ports s self));
          (conn, s1) = new_conn_obj (IIP (IIPConnection_connect self (IIPConnection packet))) s
      in (case add_connection self conn s1 of
            (Returns u, s2) \<Rightarrow>
              (Returns (), s2\<lparr>ports := (ports s2)(self := (ports s2 self)\<lparr>iip := True\<rparr>)\<rparr>)
          | (Raises e, s2) \<Rightarrow> (Raises e, s2)
          | (Suspends, s2) \<Rightarrow> (Suspends, s2)))"

text \<open>
  \<^verbatim>\<open>InputPort.disconnect_all\<close>. The loop removes the port from the destination of each
  of its connections (\<^verbatim>\<open>set.remove\<close> raises \<^verbatim>\<open>KeyError\<close> on a missing element); the
  order in which Python iterates over the set is the list \<open>order\<close>. Then the port
  stores \<^verbatim>\<open>[]\<close>, a list, where the overridden \<^verbatim>\<open>PortInterface.disconnect_all\<close> stores
  \<^verbatim>\<open>set()\<close>.
\<close>

fun remove_destination ::
  "port_id \<Rightarrow> conn_id list \<Rightarrow> (conn_id \<Rightarrow> 'v conn_obj) \<Rightarrow> unit outcome \<times> (conn_id \<Rightarrow> 'v conn_obj)" where
  "remove_destination self [] cs = (Returns (), cs)"
| "remove_destination self (c # rest) cs =
     (case cs c of
        Conn k \<Rightarrow>
          if self \<in> destination k
          then remove_destination self rest (cs(c := Conn (k\<lparr>destination := destination k - {self}\<rparr>)))
          else (Raises KeyError, cs)
      | IIP k \<Rightarrow>
          if self \<in> idestination k
          then remove_destination self rest (cs(c := IIP (k\<lparr>idestination := idestination k - {self}\<rparr>)))
          else (Raises KeyError, cs))"

definition InputPort_disconnect_all ::
  "conn_id list \<Rightarrow> port_id \<Rightarrow> 'v state \<Rightarrow> unit outcome \<times> 'v state" where
  "InputPort_disconnect_all order self s =
     (case remove_destination self order (conns s) of
        (Returns u, cs) \<Rightarrow>
          (Returns (),
           s\<lparr>conns := cs, ports := (ports s)(self := (ports s self)\<lparr>connections := PyEmptyList\<rparr>)\<rparr>)
      | (Raises e, cs) \<Rightarrow> (Raises e, s\<lparr>conns := cs\<rparr>)
      | (Suspends, cs) \<Rightarrow> (Suspends, s\<lparr>conns := cs\<rparr>))"

definition PortInterface_disconnect_all :: "port_id \<Rightarrow> 'v state \<Rightarrow> 'v state" where
  "PortInterface_disconnect_all self s =
     s\<lparr>ports := (ports s)(self := (ports s self)\<lparr>connections := PySet {}\<rparr>)\<rparr>"

section \<open>Sending\<close>

text \<open>
  The message of \<^verbatim>\<open>Connection.send\<close>, \<^verbatim>\<open>"Queue to {} is full".format(*self.destination)\<close>:
  with no destination there is no argument for the field and \<^verbatim>\<open>format\<close> raises
  \<^verbatim>\<open>IndexError\<close>; otherwise the first destination is formatted with its
  \<^verbatim>\<open>__str__\<close>.
\<close>

definition full_message :: "'v state \<Rightarrow> 'v connection \<Rightarrow> unit outcome" where
  "full_message s k =
     (if destination k = {} then Raises IndexError
      else str_port (ports s (first_port s (destination k))))"

text \<open>
  The loop \<^verbatim>\<open>for s in self.source: s.log.debug(message)\<close>. In each round
  \<^verbatim>\<open>s.log.debug\<close> is evaluated before the message is. The message is the same in
  every round, so only the first round can fail on it.
\<close>

definition log_full :: "'v state \<Rightarrow> 'v connection \<Rightarrow> unit outcome" where
  "log_full s k =
     (if source k = {} then Returns ()
      else
        (case log_call s (ports s (first_port s (source k))) of
           Raises e \<Rightarrow> Raises e
         | Suspends \<Rightarrow> Suspends
         | Returns u \<Rightarrow>
             (case full_message s k of
                Raises e \<Rightarrow> Raises e
              | Suspends \<Rightarrow> Suspends
              | Returns u \<Rightarrow>
                  if \<exists>sp \<in> source k. log_call s (ports s sp) \<noteq> Returns ()
                  then Raises AttributeError else Returns ())))"

text \<open>
  \<^verbatim>\<open>Connection.send(packet)\<close>, run as one task. On a full queue the source ports
  log first, and then \<^verbatim>\<open>put\<close> suspends; with room the packet is enqueued.
\<close>

definition Connection_send ::
  "'v state \<Rightarrow> 'v packet \<Rightarrow> 'v connection \<Rightarrow> 'v connection outcome" where
  "Connection_send s packet k =
     (case queue k of
        None \<Rightarrow> Raises AttributeError
      | Some q \<Rightarrow>
          if full q
          then (case log_full s k of
                  Raises e \<Rightarrow> Raises e
                | Suspends \<Rightarrow> Suspends
                | Returns u \<Rightarrow> Suspends)
          else Returns (k\<lparr>queue := Some (put packet q)\<rparr>))"

fun is_IIP :: "'v conn_obj \<Rightarrow> bool" where
  "is_IIP (IIP k) = True"
| "is_IIP (Conn k) = False"

text \<open>
  The task \<^verbatim>\<open>conn.send(packet)\<close> on one bound connection: what it leaves of the
  connection (unchanged unless the packet was enqueued) and whether it is still
  suspended. An exception raised inside the task stays in the task:
  \<^verbatim>\<open>send_packet\<close> never asks for the results of the tasks it waits for.
\<close>

definition send_task :: "'v state \<Rightarrow> 'v packet \<Rightarrow> 'v conn_obj \<Rightarrow> 'v conn_obj" where
  "send_task s packet ob =
     (case ob of
        Conn k \<Rightarrow> (case Connection_send s packet k of Returns k1 \<Rightarrow> Conn k1 | Raises e \<Rightarrow> ob | Suspends \<Rightarrow> ob)
      | IIP k \<Rightarrow> ob)"

definition send_pending :: "'v state \<Rightarrow> 'v packet \<Rightarrow> 'v conn_obj \<Rightarrow> bool" where
  "send_pending s packet ob =
     (case ob of
        Conn k \<Rightarrow> Connection_send s packet k = Suspends
      | IIP k \<Rightarrow> False)"

text \<open>
  \<^verbatim>\<open>asyncio.wait([conn.send(packet) for conn in self.connections], ALL_COMPLETED)\<close>:
  one task per bound connection, all run, and the wait ends when none is suspended.
  \<^verbatim>\<open>IIPConnection.send(self)\<close> takes no packet, so building the list raises
  \<^verbatim>\<open>TypeError\<close> before any task exists.
\<close>

definition broadcast :: "conn_id set \<Rightarrow> 'v packet \<Rightarrow> 'v state \<Rightarrow> unit outcome \<times> 'v state" where
  "broadcast S packet s =
     (if \<exists>c \<in> S. is_IIP (conns s c) then (Raises TypeError, s)
      else
        (if \<exists>c \<in> S. send_pending s packet (conns s c) then Suspends else Returns (),
         s\<lparr>conns := (\<lambda>c. if c \<in> S then send_task s packet (conns s c) else conns s c)\<rparr>))"

text \<open>\<^verbatim>\<open>OutputPort.send_packet(packet)\<close>. The flag \<^verbatim>\<open>open\<close> is not read.\<close>

definition OutputPort_send_packet ::
  "port_id \<Rightarrow> 'v packet \<Rightarrow> 'v state \<Rightarrow> unit outcome \<times> 'v state" where
  "OutputPort_send_packet self packet s =
     (let p = ports s self in
      if is_connected p then
        if owner packet = component p \<or> owner packet = None then
          (case broadcast (members (connections p)) packet s of
             (Returns u, s1) \<Rightarrow> (log_call s1 p, s1)
           | (Raises e, s1) \<Rightarrow> (Raises e, s1)
           | (Suspends, s1) \<Rightarrow> (Suspends, s1))
        else
          (case log_call s p of
             Returns u \<Rightarrow> (Raises PacketOwnedError, s)
           | Raises e \<Rightarrow> (Raises e, s)
           | Suspends \<Rightarrow> (Suspends, s))
      else
        if optional p then (log_call s p, s)
        else
          (case log_call s p of
             Returns u \<Rightarrow> (Raises PortDisconnectedError, s)
           | Raises e \<Rightarrow> (Raises e, s)
           | Suspends \<Rightarrow> (Suspends, s)))"

text \<open>\<^verbatim>\<open>PortInterface.send(value)\<close> on an output port: the packet is built without owner.\<close>

definition OutputPort_send :: "port_id \<Rightarrow> 'v \<Rightarrow> 'v state \<Rightarrow> unit outcome \<times> 'v state" where
  "OutputPort_send self v s =
     (let packet = InformationPacket v None
      in OutputPort_send_packet self packet s)"

text \<open>\<^verbatim>\<open>OutputPort.close\<close>.\<close>

definition OutputPort_close :: "port_id \<Rightarrow> 'v state \<Rightarrow> unit outcome \<times> 'v state" where
  "OutputPort_close self s =
     (let packet = set_owner (component (ports s self)) (EndOfStream None)
      in (case OutputPort_send_packet self packet s of
            (Returns u, s1) \<Rightarrow>
              (log_call s1 (ports s1 self),
               s1\<lparr>ports := (ports s1)(self := (ports s1 self)\<lparr>open := False\<rparr>)\<rparr>)
          | (Raises e, s1) \<Rightarrow> (Raises e, s1)
          | (Suspends, s1) \<Rightarrow> (Suspends, s1)))"

text \<open>\<^verbatim>\<open>InputPort.send_packet\<close> and \<^verbatim>\<open>OutputPort.receive_packet\<close>.\<close>

definition InputPort_send_packet ::
  "port_id \<Rightarrow> 'v packet \<Rightarrow> 'v state \<Rightarrow> unit outcome \<times> 'v state" where
  "InputPort_send_packet self packet s = (Raises InputOnlyError, s)"

definition OutputPort_receive_packet ::
  "port_id \<Rightarrow> 'v state \<Rightarrow> 'v packet option outcome \<times> 'v state" where
  "OutputPort_receive_packet self s = (Raises OutputOnlyError, s)"

section \<open>Receiving\<close>

text \<open>
  \<^verbatim>\<open>InputPort.close\<close>. Without an initial packet the port first waits for
  \<^verbatim>\<open>conn._queue.join()\<close> on every bound connection: \<^verbatim>\<open>asyncio.wait\<close> raises
  \<^verbatim>\<open>ValueError\<close> on an empty list, \<^verbatim>\<open>_queue\<close> is \<^verbatim>\<open>None\<close> on a
  \<^verbatim>\<open>Connection\<close> never connected and missing on an \<^verbatim>\<open>IIPConnection\<close>, and a
  \<^verbatim>\<open>join\<close> stays suspended while its queue has unfinished items.
\<close>

fun queue_of :: "'v conn_obj \<Rightarrow> 'v packet queue option" where
  "queue_of (Conn k) = queue k"
| "queue_of (IIP k) = None"

definition drained :: "'v conn_obj \<Rightarrow> bool" where
  "drained ob = (case queue_of ob of None \<Rightarrow> False | Some q \<Rightarrow> join_completes q)"

definition wait_joins :: "(conn_id \<Rightarrow> 'v conn_obj) \<Rightarrow> conn_id set \<Rightarrow> unit outcome" where
  "wait_joins cs S =
     (if \<exists>c \<in> S. queue_of (cs c) = None then Raises AttributeError
      else if S = {} then Raises ValueError
      else if \<forall>c \<in> S. drained (cs c) then Returns ()
      else Suspends)"

definition InputPort_close :: "port_id \<Rightarrow> 'v state \<Rightarrow> unit outcome \<times> 'v state" where
  "InputPort_close self s =
     (let p = ports s self in
      case (if \<not> iip p then wait_joins (conns s) (members (connections p)) else Returns ()) of
        Returns u \<Rightarrow> (log_call s p, s\<lparr>ports := (ports s)(self := p\<lparr>open := False\<rparr>)\<rparr>)
      | Raises e \<Rightarrow> (Raises e, s)
      | Suspends \<Rightarrow> (Suspends, s))"

text \<open>
  The race of \<^verbatim>\<open>receive_packet\<close>:
  \<^verbatim>\<open>asyncio.wait([conn.receive() for conn in self.connections], FIRST_COMPLETED)\<close>,
  then \<^verbatim>\<open>done.pop().result()\<close> and the cancellation of the pending tasks.

  One task is made for each bound connection, and the event loop runs every one of
  them up to its first suspension before the waiting coroutine goes on. A
  \<^verbatim>\<open>receive\<close> suspends only in \<^verbatim>\<open>get\<close> on an empty queue; on a queue that holds
  data, and on a constant connection, it runs to its end (or to its exception) at
  once. So \<^verbatim>\<open>done\<close> holds the task of every such connection, each of which has
  taken its packet, and \<^verbatim>\<open>pending\<close> the tasks waiting on an empty queue, which have
  taken nothing and are cancelled. While no task is done the call stays suspended.
\<close>

definition ready :: "(conn_id \<Rightarrow> 'v conn_obj) \<Rightarrow> conn_id set \<Rightarrow> conn_id set" where
  "ready cs S = {c \<in> S. fst (receive (cs c)) \<noteq> Suspends}"

text \<open>
  \<^verbatim>\<open>done.pop()\<close> takes some element of the set \<^verbatim>\<open>done\<close>; which one is the choice
  \<open>pop\<close> of the interpreter. The results of the other tasks in \<^verbatim>\<open>done\<close> are never
  read.
\<close>

definition race ::
  "(conn_id set \<Rightarrow> conn_id) \<Rightarrow> (conn_id \<Rightarrow> 'v conn_obj) \<Rightarrow> conn_id set
     \<Rightarrow> 'v packet outcome \<times> (conn_id \<Rightarrow> 'v conn_obj)" where
  "race pop cs S =
     (let done = ready cs S in
      if done = {} then (Suspends, cs)
      else (fst (receive (cs (pop done))),
            (\<lambda>c. if c \<in> done then snd (receive (cs c)) else cs c)))"

text \<open>
  \<^verbatim>\<open>InputPort.receive_packet\<close>. The result \<open>None\<close> is Python's \<^verbatim>\<open>None\<close>, which the
  optional, unconnected port returns.
\<close>

definition InputPort_receive_packet ::
  "(conn_id set \<Rightarrow> conn_id) \<Rightarrow> port_id \<Rightarrow> 'v state \<Rightarrow> 'v packet option outcome \<times> 'v state" where
  "InputPort_receive_packet pop self s =
     (let p = ports s self in
      if is_connected p then
        if open p then
          (case log_call s p of
             Raises e \<Rightarrow> (Raises e, s)
           | Suspends \<Rightarrow> (Suspends, s)
           | Returns u \<Rightarrow>
               (case race pop (conns s) (members (connections p)) of
                  (Suspends, cs1) \<Rightarrow> (Suspends, s\<lparr>conns := cs1\<rparr>)
                | (Raises e, cs1) \<Rightarrow> (Raises e, s\<lparr>conns := cs1\<rparr>)
                | (Returns packet, cs1) \<Rightarrow>
                    (case log_call s p of
                       Raises e \<Rightarrow> (Raises e, s\<lparr>conns := cs1\<rparr>)
                     | Suspends \<Rightarrow> (Suspends, s\<lparr>conns := cs1\<rparr>)
                     | Returns u \<Rightarrow>
                         (case (if iip p then InputPort_close self (s\<lparr>conns := cs1\<rparr>)
                                else (Returns (), s\<lparr>conns := cs1\<rparr>)) of
                            (Raises e, s2) \<Rightarrow> (Raises e, s2)
                          | (Suspends, s2) \<Rightarrow> (Suspends, s2)
                          | (Returns u, s2) \<Rightarrow>
                              if is_eos packet then
                                (case InputPort_close self s2 of
                                   (Returns u, s3) \<Rightarrow>
                                     (case log_call s3 p of
                                        Returns u \<Rightarrow> (Raises StopAsyncIteration, s3)
                                      | Raises e \<Rightarrow> (Raises e, s3)
                                      | Suspends \<Rightarrow> (Suspends, s3))
                                 | (Raises e, s3) \<Rightarrow> (Raises e, s3)
                                 | (Suspends, s3) \<Rightarrow> (Suspends, s3))
                              else (Returns (Some packet), s2)))))
        else (Raises PortClosedError, s)
      else
        if optional p then (Returns None, s)
        else
          (case log_call s p of
             Returns u \<Rightarrow> (Raises PortDisconnectedError, s)
           | Raises e \<Rightarrow> (Raises e, s)
           | Suspends \<Rightarrow> (Suspends, s)))"

section \<open>The port register\<close>

text \<open>
  \<^verbatim>\<open>PortRegister\<close>: the component and the ordered dictionary \<^verbatim>\<open>ports\<close> from names
  to ports. \<^verbatim>\<open>OrderedDict.update({name: port})\<close> replaces the value of a key already
  there, in place, and appends a new key: \<^const>\<open>AList.update\<close>.
\<close>

record register =
  rcomponent :: "comp option"
  rports :: "(string \<times> port_id) list"

definition PortRegister :: "comp option \<Rightarrow> register" where
  "PortRegister c = \<lparr>rcomponent = c, rports = []\<rparr>"

text \<open>
  \<^verbatim>\<open>PortRegister.add_as(port, name)\<close>: refused when the port has a component, and in no
  other case. The attribute assignment cannot raise \<^verbatim>\<open>AttributeError\<close> on a port.
\<close>

definition add_as ::
  "port_id \<Rightarrow> string \<Rightarrow> register \<Rightarrow> 'v state \<Rightarrow> unit outcome \<times> register \<times> 'v state" where
  "add_as port nm r s =
     (if component (ports s port) \<noteq> None then (Raises PortAlreadyExistingError, r, s)
      else
        (Returns (),
         r\<lparr>rports := AList.update nm port (rports r)\<rparr>,
         s\<lparr>ports := (ports s)(port := (ports s port)\<lparr>component := rcomponent r\<rparr>)\<rparr>))"

definition add :: "port_id \<Rightarrow> register \<Rightarrow> 'v state \<Rightarrow> unit outcome \<times> register \<times> 'v state" where
  "add port r s = add_as port (name (ports s port)) r s"

text \<open>\<^verbatim>\<open>PortRegister.__getitem__\<close>.\<close>

definition getitem :: "register \<Rightarrow> string \<Rightarrow> port_id outcome" where
  "getitem r item =
     (case map_of (rports r) item of
        Some p \<Rightarrow> Returns p
      | None \<Rightarrow> Raises PortNotExistingError)"

text \<open>
  \<^verbatim>\<open>PortRegister.receive_packets\<close>. The first loop goes over
  \<^verbatim>\<open>set(self.ports.values())\<close>, in the order \<open>order\<close> Python happens to iterate
  that set, and starts one task \<^verbatim>\<open>p.receive_packet()\<close> for each port that is open,
  stored in the dictionary \<^verbatim>\<open>futures\<close> under the port's own \<^verbatim>\<open>name\<close>. The tasks
  work on different ports; they are run here one after the other.
\<close>

fun run_tasks ::
  "(conn_id set \<Rightarrow> conn_id) \<Rightarrow> port_id list \<Rightarrow> 'v state
     \<Rightarrow> (port_id \<times> 'v packet option outcome) list \<times> 'v state" where
  "run_tasks pop [] s = ([], s)"
| "run_tasks pop (p # rest) s =
     (let (res, s1) = InputPort_receive_packet pop p s;
          (more, s2) = run_tasks pop rest s1
      in ((p, res) # more, s2))"







section \<open>Example stores\<close>

text \<open>
  In the example stores every component has the attribute \<^verbatim>\<open>log\<close>, unless said
  otherwise, and the iteration over a set of ports begins with the least port.

  A store with no connection, an output port \<open>0\<close> of component \<open>10\<close> and an input
  port \<open>1\<close> of component \<open>20\<close>; every other port is new and belongs to no component.
\<close>

definition two_ports :: "nat state" where
  "two_ports =
     \<lparr>ports = (\<lambda>i. PortInterface [] None False)
                 (0 := PortInterface ''OUT'' (Some 10) False,
                  1 := PortInterface ''IN'' (Some 20) False),
      conns = (\<lambda>i. Conn Connection),
      next_conn = 0,
      has_log = (\<lambda>c. True),
      first_port = Min\<rparr>"

text \<open>\<^verbatim>\<open>out.connect(inp)\<close>.\<close>

definition wired :: "nat state" where
  "wired = snd (OutputPort_connect 0 1 (- 1) two_ports)"

text \<open>\<^verbatim>\<open>await out.close()\<close> after that.\<close>

definition out_closed :: "nat state" where
  "out_closed = snd (OutputPort_close 0 wired)"

text \<open>\<^verbatim>\<open>await out.send(7)\<close> after the close.\<close>

definition sent_after_close :: "nat state" where
  "sent_after_close = snd (OutputPort_send 0 7 out_closed)"


text \<open>
  \<^verbatim>\<open>c = Connection(); c.connect(out, inp, size=5)\<close>: the connection \<open>0\<close> of this
  store has a destination.
\<close>

definition bound5 :: "nat state" where
  "bound5 = snd (Connection_connect 0 0 1 5 (snd (new_conn_obj (Conn Connection) two_ports)))"

text \<open>A store in which every port is new, named \<^verbatim>\<open>IN\<close>, and belongs to no component.\<close>

definition unregistered :: "nat state" where
  "unregistered =
     \<lparr>ports = (\<lambda>i. PortInterface ''IN'' None False),
      conns = (\<lambda>i. Conn Connection),
      next_conn = 0,
      has_log = (\<lambda>c. True),
      first_port = Min\<rparr>"

text \<open>\<^verbatim>\<open>r = PortRegister(c30); r.add(p0)\<close>: the register and the store afterwards.\<close>

definition registered_once :: "register \<times> nat state" where
  "registered_once = snd (add 0 (PortRegister (Some 30)) unregistered)"

text \<open>\<^verbatim>\<open>inp.disconnect_all()\<close> on the new input port of \<open>two_ports\<close>.\<close>

definition disconnected :: "nat state" where
  "disconnected = snd (InputPort_disconnect_all [] 1 two_ports)"


text \<open>
  The store \<open>wired\<close> with components that are plain \<^verbatim>\<open>Component\<close> objects, which
  have no attribute \<^verbatim>\<open>log\<close>; and the store \<open>wired\<close> with an output port that
  was never registered on a component.
\<close>

definition plain_wired :: "nat state" where
  "plain_wired = wired\<lparr>has_log := (\<lambda>c. False)\<rparr>"

definition unowned_wired :: "nat state" where
  "unowned_wired = wired\<lparr>ports := (ports wired)(0 := (ports wired 0)\<lparr>component := None\<rparr>)\<rparr>"

text \<open>
  Two sources and one sink: the output ports \<open>0\<close> and \<open>2\<close>, of components 10 and 30,
  and the input port \<open>1\<close> of component 20.
\<close>

definition three_ports :: "nat state" where
  "three_ports =
     \<lparr>ports = (\<lambda>i. PortInterface [] None False)
                 (0 := PortInterface ''OUT'' (Some 10) False,
                  1 := PortInterface ''IN'' (Some 20) False,
                  2 := PortInterface ''OUT'' (Some 30) False),
      conns = (\<lambda>i. Conn Connection),
      next_conn = 0,
      has_log = (\<lambda>c. True),
      first_port = Min\<rparr>"

text \<open>
  Both output ports are connected to the input port with capacity 1
  (\<^verbatim>\<open>out0.connect(inp, size=1); out2.connect(inp, size=1)\<close>), and then each source
  has sent one integer (\<^verbatim>\<open>await out0.send(10); await out2.send(20)\<close>).
\<close>

definition fan_wired :: "nat state" where
  "fan_wired = snd (OutputPort_connect 2 1 1 (snd (OutputPort_connect 0 1 1 three_ports)))"


definition fan_in :: "nat state" where
  "fan_in =
     snd (OutputPort_send 2 20
       (snd (OutputPort_send 0 10
         (snd (OutputPort_connect 2 1 1
           (snd (OutputPort_connect 0 1 1 three_ports)))))))"



section \<open>The constant connection delivers once\<close>

lemma poll_exhausted:
  "n_rec k \<le> 0 \<Longrightarrow> poll n k = (replicate n (EndOfStream None), k)"
  by (induction n) (simp_all add: IIPConnection_receive_def)

lemma receive_seeded:
  "IIPConnection_receive (IIPConnection v) = (v, (IIPConnection v)\<lparr>n_rec := 0\<rparr>)"
  by (simp add: IIPConnection_receive_def IIPConnection_def)

text \<open>
  Claim C3. A constant connection seeded with \<open>v\<close>, whether or not it has been bound
  to a destination, returns \<open>v\<close> on its first \<^verbatim>\<open>receive\<close> and a new
  \<^verbatim>\<open>EndOfStream()\<close> on each of the \<open>n\<close> polls after it, for every \<open>n\<close>.
\<close>

theorem iip_single_delivery:
  "fst (poll (Suc n) (IIPConnection v)) = v # replicate n (EndOfStream None)
   \<and> fst (poll (Suc n) (IIPConnection_connect d (IIPConnection v)))
       = v # replicate n (EndOfStream None)"
proof -
  have a: "n_rec ((IIPConnection v)\<lparr>n_rec := 0\<rparr>) \<le> 0"
    by simp
  have b: "IIPConnection_receive (IIPConnection_connect d (IIPConnection v))
           = (v, (IIPConnection_connect d (IIPConnection v))\<lparr>n_rec := 0\<rparr>)"
    by (simp add: IIPConnection_receive_def IIPConnection_connect_def IIPConnection_def)
  have c: "n_rec ((IIPConnection_connect d (IIPConnection v))\<lparr>n_rec := 0\<rparr>) \<le> 0"
    by simp
  show ?thesis
    using poll_exhausted [OF a, of n] poll_exhausted [OF c, of n]
    by (simp add: receive_seeded b)
qed

section \<open>The example stores, computed\<close>

lemmas connect_defs = OutputPort_connect_def InputPort_connect_def new_conn_obj_def
  Connection_connect_def Connection_def add_connection_def PortInterface_def

lemma ready_empty: "ready cs {} = {}"
  by (simp add: ready_def)

lemma ready_insert:
  "ready cs (insert c S) =
     (if fst (receive (cs c)) \<noteq> Suspends then insert c (ready cs S) else ready cs S)"
  by (auto simp: ready_def)

lemmas recv_defs = race_def ready_insert ready_empty receive_def Connection_receive_def
  task_done_def

lemmas close_defs = InputPort_close_def wait_joins_def drained_def join_completes_def
  log_call_def is_connected_def Let_def

lemma connect_keeps:
  "has_log (snd (Connection_connect c src dst sz s)) = has_log s"
  "first_port (snd (Connection_connect c src dst sz s)) = first_port s"
  by (auto simp: Connection_connect_def add_connection_def
      split: conn_obj.splits outcome.splits prod.splits if_splits)

lemma port_connect_keeps:
  "has_log (snd (OutputPort_connect a b sz s)) = has_log s"
  "first_port (snd (OutputPort_connect a b sz s)) = first_port s"
  by (simp_all add: OutputPort_connect_def new_conn_obj_def connect_keeps)

lemma send_packet_keeps:
  "has_log (snd (OutputPort_send_packet p packet s)) = has_log s"
  "first_port (snd (OutputPort_send_packet p packet s)) = first_port s"
  "ports (snd (OutputPort_send_packet p packet s)) = ports s"
  by (auto simp: OutputPort_send_packet_def broadcast_def Let_def
      split: outcome.splits prod.splits if_splits)

lemma close_keeps:
  "has_log (snd (OutputPort_close p s)) = has_log s"
  "first_port (snd (OutputPort_close p s)) = first_port s"
proof -
  obtain r s1 where a: "OutputPort_send_packet p (set_owner (component (ports s p)) (EndOfStream None)) s = (r, s1)"
    by (cases "OutputPort_send_packet p (set_owner (component (ports s p)) (EndOfStream None)) s")
  have "has_log s1 = has_log s" and "first_port s1 = first_port s"
    using send_packet_keeps [of p "set_owner (component (ports s p)) (EndOfStream None)" s] a by simp_all
  then show "has_log (snd (OutputPort_close p s)) = has_log s"
    and "first_port (snd (OutputPort_close p s)) = first_port s"
    using a by (cases r; simp add: OutputPort_close_def Let_def)+
qed

lemma wired_has_log: "has_log wired c"
  by (simp add: wired_def port_connect_keeps two_ports_def)

lemma out_closed_has_log: "has_log out_closed c"
  by (simp add: out_closed_def close_keeps wired_has_log)

lemmas broadcast_defs = broadcast_def send_task_def send_pending_def Connection_send_def
  full_def put_def Queue_def log_call_def is_connected_def Let_def wired_has_log
  out_closed_has_log

lemma wired_ports0:
  "ports wired 0 = \<lparr>name = ''OUT'', component = Some 10, open = True, iip = False,
                     optional = False, connections = PySet {0}\<rparr>"
  by (simp add: wired_def two_ports_def connect_defs)

lemma wired_ports1:
  "ports wired (Suc 0) = \<lparr>name = ''IN'', component = Some 20, open = True, iip = False,
                           optional = False, connections = PySet {0}\<rparr>"
  by (simp add: wired_def two_ports_def connect_defs)

lemma wired_conns0:
  "conns wired 0 = Conn \<lparr>queue = Some (Queue (- 1)), source = {0}, destination = {Suc 0}\<rparr>"
  by (simp add: wired_def two_ports_def connect_defs)


lemma out_closed_ports0:
  "ports out_closed 0 = \<lparr>name = ''OUT'', component = Some 10, open = False, iip = False,
                          optional = False, connections = PySet {0}\<rparr>"
  by (simp add: out_closed_def OutputPort_close_def OutputPort_send_packet_def broadcast_defs
      wired_ports0 wired_conns0)

lemma out_closed_ports1: "ports out_closed (Suc 0) = ports wired (Suc 0)"
  by (simp add: out_closed_def OutputPort_close_def OutputPort_send_packet_def broadcast_defs
      wired_ports0 wired_conns0)

lemma out_closed_conns0:
  "conns out_closed 0 =
     Conn \<lparr>queue = Some \<lparr>items = [EndOfStream (Some 10)], maxsize = - 1, unfinished_tasks = 1\<rparr>,
           source = {0}, destination = {Suc 0}\<rparr>"
  by (simp add: out_closed_def OutputPort_close_def OutputPort_send_packet_def broadcast_defs
      wired_ports0 wired_conns0)

lemma sent_conns0:
  "conns sent_after_close 0 =
     Conn \<lparr>queue = Some \<lparr>items = [EndOfStream (Some 10), InformationPacket 7 None],
                          maxsize = - 1, unfinished_tasks = 2\<rparr>,
           source = {0}, destination = {Suc 0}\<rparr>"
  by (simp add: sent_after_close_def out_closed_ports0 out_closed_conns0 OutputPort_send_def
      OutputPort_send_packet_def broadcast_defs)

lemma sent_ports1: "ports sent_after_close (Suc 0) = ports wired (Suc 0)"
  by (simp add: sent_after_close_def out_closed_ports0 out_closed_ports1 out_closed_conns0
      OutputPort_send_def OutputPort_send_packet_def broadcast_defs)


lemma bound5_conns0:
  "conns bound5 0 = Conn \<lparr>queue = Some (Queue 5), source = {0}, destination = {Suc 0}\<rparr>"
  by (simp add: bound5_def two_ports_def connect_defs)

lemma disconnected_store:
  "ports disconnected (Suc 0) = \<lparr>name = ''IN'', component = Some 20, open = True, iip = False,
                                  optional = False, connections = PyEmptyList\<rparr>"
  "ports disconnected 0 = \<lparr>name = ''OUT'', component = Some 10, open = True, iip = False,
                            optional = False, connections = PySet {}\<rparr>"
  "conns disconnected = (\<lambda>i. Conn Connection)"
  "next_conn disconnected = 0"
  by (simp_all add: disconnected_def InputPort_disconnect_all_def two_ports_def PortInterface_def)

section \<open>A second connect on a bound connection\<close>

lemma capacity_call_raises:
  "(case capacity k of Returns f \<Rightarrow> call_int f | Raises e \<Rightarrow> Raises e | Suspends \<Rightarrow> Suspends)
     = Raises TypeError"
  by (simp add: capacity_def call_int_def split: option.splits)

lemma second_connect_raises:
  "conns s c = Conn k \<Longrightarrow> destination k \<noteq> {} \<Longrightarrow>
   Connection_connect c src dst sz s = (Raises TypeError, s)"
  by (simp add: Connection_connect_def capacity_call_raises)

text \<open>
  Claim C5 on the code. The connection \<open>0\<close> of \<open>bound5\<close> was connected with capacity
  5. A second \<^verbatim>\<open>connect\<close> with the same capacity 5 is not accepted, and one with
  capacity 10 does not raise the \<^verbatim>\<open>ValueError\<close> written for the mismatch: both raise
  \<^verbatim>\<open>TypeError\<close>, from \<^verbatim>\<open>self.capacity()\<close>, and leave the store as it was.
\<close>

theorem second_connect_same_capacity_raises:
  "conns bound5 0 = Conn \<lparr>queue = Some (Queue 5), source = {0}, destination = {1}\<rparr>
   \<and> Connection_connect 0 2 1 5 bound5 = (Raises TypeError, bound5)
   \<and> Connection_connect 0 2 1 10 bound5 = (Raises TypeError, bound5)"
  by (simp add: bound5_conns0 second_connect_raises)

section \<open>Sending and the owner of a packet\<close>

lemma send_packet_of_send:
  "OutputPort_send p v s = OutputPort_send_packet p (InformationPacket v None) s"
  by (simp add: OutputPort_send_def)

text \<open>
  Claim C6 on the code. The output port \<open>0\<close> of \<open>wired\<close> belongs to component 10;
  \<^verbatim>\<open>send(7)\<close> puts on the queue a packet with no owner, not one owned by component 10.
\<close>

theorem send_builds_packet_without_owner:
  "component (ports wired 0) = Some 10
   \<and> fst (OutputPort_send 0 7 wired) = Returns ()
   \<and> queue_of (conns (snd (OutputPort_send 0 7 wired)) 0)
      = Some \<lparr>items = [InformationPacket 7 None], maxsize = - 1, unfinished_tasks = 1\<rparr>
   \<and> owner (InformationPacket 7 None :: nat packet) \<noteq> component (ports wired 0)"
  by (simp add: wired_ports0 wired_conns0 OutputPort_send_def OutputPort_send_packet_def
      broadcast_defs)

section \<open>Registering a port\<close>

text \<open>
  Claim C9 fails on a name collision: the register holds the port \<open>0\<close> under the name
  \<^verbatim>\<open>IN\<close>; adding the new port \<open>1\<close>, also named \<^verbatim>\<open>IN\<close>, returns normally, and the
  name now maps to port \<open>1\<close>.
\<close>

theorem name_collision_is_accepted:
  "rports (fst registered_once) = [(''IN'', 0)]
   \<and> name (ports (snd registered_once) 1) = ''IN''
   \<and> fst (add 1 (fst registered_once) (snd registered_once)) = Returns ()
   \<and> rports (fst (snd (add 1 (fst registered_once) (snd registered_once)))) = [(''IN'', 1)]"
  by (simp add: registered_once_def add_def add_as_def unregistered_def PortRegister_def
      PortInterface_def)

text \<open>
  Claim C9, amended. \<^verbatim>\<open>add_as\<close> raises \<^verbatim>\<open>PortAlreadyExistingError\<close> when the port
  already has a component, and then the register and the store are unchanged. In every
  other case it returns: the port gets the component of the register, and the name is
  mapped to the port, in place of any port the name had before.
\<close>

theorem add_as_law:
  "(component (ports s port) \<noteq> None
      \<longrightarrow> add_as port nm r s = (Raises PortAlreadyExistingError, r, s))
   \<and> (component (ports s port) = None
      \<longrightarrow> fst (add_as port nm r s) = Returns ()
          \<and> rports (fst (snd (add_as port nm r s))) = AList.update nm port (rports r)
          \<and> map_of (rports (fst (snd (add_as port nm r s)))) = (map_of (rports r))(nm \<mapsto> port)
          \<and> component (ports (snd (snd (add_as port nm r s))) port) = rcomponent r)"
  by (simp add: add_as_def update_conv')

text \<open>
  The port \<open>0\<close> is refused by a second \<^verbatim>\<open>add_as\<close> once it is registered, and was
  accepted the first time.
\<close>

theorem add_as_law_witness:
  "component (ports (snd registered_once) 0) \<noteq> None
   \<and> add_as 0 ''X'' (fst registered_once) (snd registered_once)
       = (Raises PortAlreadyExistingError, fst registered_once, snd registered_once)
   \<and> component (ports unregistered 0) = None
   \<and> fst (add_as 0 ''IN'' (PortRegister (Some 30)) unregistered) = Returns ()
   \<and> map_of (rports (fst (snd (add_as 0 ''IN'' (PortRegister (Some 30)) unregistered)))) ''IN''
       = Some 0"
proof -
  have a: "component (ports (snd registered_once) 0) \<noteq> None"
    by (simp add: registered_once_def add_def add_as_def unregistered_def PortRegister_def
        PortInterface_def)
  have b: "component (ports unregistered 0) = None"
    by (simp add: unregistered_def PortInterface_def)
  show ?thesis
    using add_as_law [of "snd registered_once" 0 "''X''" "fst registered_once"]
      add_as_law [of unregistered 0 "''IN''" "PortRegister (Some 30)"] a b
    by (simp add: PortRegister_def)
qed

section \<open>Connecting ports\<close>

text \<open>
  A connect between two ports whose \<^verbatim>\<open>connections\<close> are sets: the connection is new,
  it gets its own empty queue, and it is added to the sets of both ports.
\<close>

lemma connect_new_connection:
  assumes "connections (ports s src) = PySet A" and "connections (ports s dst) = PySet B"
  shows "\<exists>s'. Connection_connect (next_conn s) src dst sz (snd (new_conn_obj (Conn Connection) s))
               = (Returns (), s')
     \<and> conns s' (next_conn s) = Conn \<lparr>queue = Some (Queue sz), source = {src}, destination = {dst}\<rparr>
     \<and> (\<forall>c. c \<noteq> next_conn s \<longrightarrow> conns s' c = conns s c)
     \<and> connections (ports s' src) = PySet (insert (next_conn s) (if src = dst then B else A))
     \<and> connections (ports s' dst) = PySet (insert (next_conn s) B)
     \<and> (\<forall>q. q \<noteq> src \<and> q \<noteq> dst \<longrightarrow> ports s' q = ports s q)
     \<and> next_conn s' = Suc (next_conn s)"
  using assms by (auto simp: connect_defs)

text \<open>
  The same through the ports: \<^verbatim>\<open>out.connect(inp)\<close> never reaches the branch for a
  connection that already has a destination, and \<^verbatim>\<open>inp.connect(out)\<close> is the same
  call with the ends exchanged.
\<close>

lemma port_connect_new:
  assumes "connections (ports s self) = PySet A" and "connections (ports s other) = PySet B"
  shows "\<exists>s'. OutputPort_connect self other sz s = (Returns (), s')
     \<and> conns s' (next_conn s) = Conn \<lparr>queue = Some (Queue sz), source = {self}, destination = {other}\<rparr>
     \<and> (\<forall>c. c \<noteq> next_conn s \<longrightarrow> conns s' c = conns s c)
     \<and> next_conn s \<in> members (connections (ports s' self))
     \<and> next_conn s \<in> members (connections (ports s' other))
     \<and> (\<forall>q. members (connections (ports s q)) \<subseteq> members (connections (ports s' q)))
     \<and> next_conn s' = Suc (next_conn s)"
  using assms by (auto simp: connect_defs)

lemma input_connect_is_output_connect:
  "InputPort_connect self other sz s = OutputPort_connect other self sz s"
  by (simp add: InputPort_connect_def OutputPort_connect_def)

text \<open>
  Two output ports connected to the same input port: two connections, each with its
  own queue, both bound to the input port.
\<close>

lemma two_connects_two_queues:
  assumes a: "connections (ports s a) = PySet A" and b: "connections (ports s b) = PySet B"
    and d: "connections (ports s d) = PySet D"
  shows "\<exists>s1 s2. OutputPort_connect a d sz s = (Returns (), s1)
     \<and> OutputPort_connect b d sz' s1 = (Returns (), s2)
     \<and> next_conn s \<noteq> next_conn s1
     \<and> next_conn s \<in> members (connections (ports s2 d))
     \<and> next_conn s1 \<in> members (connections (ports s2 d))
     \<and> conns s2 (next_conn s) = Conn \<lparr>queue = Some (Queue sz), source = {a}, destination = {d}\<rparr>
     \<and> conns s2 (next_conn s1) = Conn \<lparr>queue = Some (Queue sz'), source = {b}, destination = {d}\<rparr>"
  using assms by (auto simp: connect_defs)

text \<open>
  Claim C10 on the code. After \<^verbatim>\<open>inp.disconnect_all()\<close> the attribute
  \<^verbatim>\<open>connections\<close> of the input port is a list. \<^verbatim>\<open>out.connect(inp)\<close> and
  \<^verbatim>\<open>inp.connect(out)\<close> then raise \<^verbatim>\<open>AttributeError\<close>, and the new connection is in
  the \<^verbatim>\<open>connections\<close> of neither port.
\<close>

theorem connect_after_disconnect_all_raises:
  "InputPort_disconnect_all [] 1 two_ports = (Returns (), disconnected)
   \<and> fst (OutputPort_connect 0 1 (- 1) disconnected) = Raises AttributeError
   \<and> connections (ports (snd (OutputPort_connect 0 1 (- 1) disconnected)) 0) = PySet {}
   \<and> connections (ports (snd (OutputPort_connect 0 1 (- 1) disconnected)) 1) = PyEmptyList
   \<and> fst (InputPort_connect 1 0 (- 1) disconnected) = Raises AttributeError
   \<and> connections (ports (snd (InputPort_connect 1 0 (- 1) disconnected)) 0) = PySet {}
   \<and> connections (ports (snd (InputPort_connect 1 0 (- 1) disconnected)) 1) = PyEmptyList"
  by (simp add: disconnected_store connect_defs)
     (simp add: disconnected_def InputPort_disconnect_all_def two_ports_def PortInterface_def)

section \<open>The race of an input port\<close>

lemma send_keeps:
  "has_log (snd (OutputPort_send p v s)) = has_log s"
  "first_port (snd (OutputPort_send p v s)) = first_port s"
  "ports (snd (OutputPort_send p v s)) = ports s"
  by (simp_all add: OutputPort_send_def send_packet_keeps)

lemma fan_wired_store:
  "ports fan_wired 0 = \<lparr>name = ''OUT'', component = Some 10, open = True, iip = False,
                         optional = False, connections = PySet {0}\<rparr>"
  "ports fan_wired (Suc 0) = \<lparr>name = ''IN'', component = Some 20, open = True, iip = False,
                               optional = False, connections = PySet {0, Suc 0}\<rparr>"
  "ports fan_wired 2 = \<lparr>name = ''OUT'', component = Some 30, open = True, iip = False,
                         optional = False, connections = PySet {Suc 0}\<rparr>"
  "conns fan_wired 0 = Conn \<lparr>queue = Some (Queue 1), source = {0}, destination = {Suc 0}\<rparr>"
  "conns fan_wired (Suc 0) = Conn \<lparr>queue = Some (Queue 1), source = {2}, destination = {Suc 0}\<rparr>"
  "has_log fan_wired c"
  by (auto simp: fan_wired_def three_ports_def connect_defs)

lemma fan_in_eq: "fan_in = snd (OutputPort_send 2 20 (snd (OutputPort_send 0 10 fan_wired)))"
  by (simp add: fan_in_def fan_wired_def)

lemma fan_in_store:
  "ports fan_in (Suc 0) = \<lparr>name = ''IN'', component = Some 20, open = True, iip = False,
                            optional = False, connections = PySet {0, Suc 0}\<rparr>"
  "conns fan_in 0 = Conn \<lparr>queue = Some \<lparr>items = [InformationPacket 10 None], maxsize = 1,
       unfinished_tasks = 1\<rparr>, source = {0}, destination = {Suc 0}\<rparr>"
  "conns fan_in (Suc 0) = Conn \<lparr>queue = Some \<lparr>items = [InformationPacket 20 None], maxsize = 1,
       unfinished_tasks = 1\<rparr>, source = {2}, destination = {Suc 0}\<rparr>"
  "has_log fan_in c"
proof -
  let ?a = "snd (OutputPort_send 0 10 fan_wired)"
  have a: "ports ?a = ports fan_wired" "has_log ?a = has_log fan_wired"
    by (simp_all add: send_keeps)
  have a0: "conns ?a 0 = Conn \<lparr>queue = Some \<lparr>items = [InformationPacket 10 None], maxsize = 1,
       unfinished_tasks = 1\<rparr>, source = {0}, destination = {Suc 0}\<rparr>"
    and a1: "conns ?a (Suc 0) = conns fan_wired (Suc 0)"
    by (simp_all add: OutputPort_send_def OutputPort_send_packet_def broadcast_def send_task_def
        send_pending_def Connection_send_def full_def put_def Queue_def log_call_def
        is_connected_def Let_def fan_wired_store)
  show "ports fan_in (Suc 0) = \<lparr>name = ''IN'', component = Some 20, open = True, iip = False,
                            optional = False, connections = PySet {0, Suc 0}\<rparr>"
    by (simp add: fan_in_eq send_keeps fan_wired_store)
  show "has_log fan_in c"
    by (simp add: fan_in_eq send_keeps fan_wired_store)
  show "conns fan_in 0 = Conn \<lparr>queue = Some \<lparr>items = [InformationPacket 10 None], maxsize = 1,
       unfinished_tasks = 1\<rparr>, source = {0}, destination = {Suc 0}\<rparr>"
    by (simp add: fan_in_eq OutputPort_send_def OutputPort_send_packet_def broadcast_def send_task_def
        send_pending_def Connection_send_def full_def put_def Queue_def log_call_def
        is_connected_def Let_def a a0 a1 fan_wired_store)
  show "conns fan_in (Suc 0) = Conn \<lparr>queue = Some \<lparr>items = [InformationPacket 20 None], maxsize = 1,
       unfinished_tasks = 1\<rparr>, source = {2}, destination = {Suc 0}\<rparr>"
    by (simp add: fan_in_eq OutputPort_send_def OutputPort_send_packet_def broadcast_def send_task_def
        send_pending_def Connection_send_def full_def put_def Queue_def log_call_def
        is_connected_def Let_def a a0 a1 fan_wired_store)
qed

lemma race_takes_every_ready:
  "c \<in> ready cs S \<Longrightarrow> snd (race pop cs S) c = snd (receive (cs c))"
  by (auto simp: race_def Let_def)

lemma race_leaves_pending:
  "c \<notin> ready cs S \<Longrightarrow> snd (race pop cs S) c = cs c"
  by (auto simp: race_def Let_def)

lemma ready_Connection:
  "c \<in> S \<Longrightarrow> cs c = Conn k \<Longrightarrow> queue k = Some q \<Longrightarrow> items q = x # xs \<Longrightarrow> c \<in> ready cs S"
  by (simp add: ready_def receive_def Connection_receive_def task_done_def split: outcome.splits)

text \<open>
  Claim C1 on the code. Two sources have each sent one integer to the input port, over
  two connections of capacity 1. One \<^verbatim>\<open>receive_packet\<close> returns one of the two
  packets, whichever \<^verbatim>\<open>done.pop()\<close> takes (the least or the greatest connection
  here), and leaves both queues empty: the packet of the other connection has been
  taken from its queue too, and is lost.
\<close>

theorem race_loses_a_packet:
  "connections (ports fan_in 1) = PySet {0, 1}
   \<and> queue_of (conns fan_in 0)
       = Some \<lparr>items = [InformationPacket 10 None], maxsize = 1, unfinished_tasks = 1\<rparr>
   \<and> queue_of (conns fan_in 1)
       = Some \<lparr>items = [InformationPacket 20 None], maxsize = 1, unfinished_tasks = 1\<rparr>
   \<and> fst (InputPort_receive_packet Min 1 fan_in) = Returns (Some (InformationPacket 10 None))
   \<and> queue_of (conns (snd (InputPort_receive_packet Min 1 fan_in)) 0)
       = Some \<lparr>items = [], maxsize = 1, unfinished_tasks = 0\<rparr>
   \<and> queue_of (conns (snd (InputPort_receive_packet Min 1 fan_in)) 1)
       = Some \<lparr>items = [], maxsize = 1, unfinished_tasks = 0\<rparr>
   \<and> fst (InputPort_receive_packet Max 1 fan_in) = Returns (Some (InformationPacket 20 None))
   \<and> queue_of (conns (snd (InputPort_receive_packet Max 1 fan_in)) 0)
       = Some \<lparr>items = [], maxsize = 1, unfinished_tasks = 0\<rparr>
   \<and> queue_of (conns (snd (InputPort_receive_packet Max 1 fan_in)) 1)
       = Some \<lparr>items = [], maxsize = 1, unfinished_tasks = 0\<rparr>"
  by (simp add: fan_in_store recv_defs InputPort_receive_packet_def close_defs)

section \<open>Closed ports\<close>

lemma log_call_flag:
  "log_call (s\<lparr>ports := f\<rparr>) p = log_call s p"
  "log_call s (p\<lparr>open := b\<rparr>) = log_call s p"
  "log_call (s\<lparr>conns := g\<rparr>) p = log_call s p"
  by (simp_all add: log_call_def split: option.splits)












section \<open>Receiving the end of the stream\<close>

lemma wait_joins_cases:
  "S \<noteq> {} \<Longrightarrow> wait_joins cs S =
     (if \<forall>c \<in> S. drained (cs c) then Returns ()
      else if \<exists>c \<in> S. queue_of (cs c) = None then Raises AttributeError
      else Suspends)"
  by (auto simp: wait_joins_def drained_def split: option.splits)

lemma close_iip:
  "iip (ports s p) \<Longrightarrow> log_call s (ports s p) = Returns () \<Longrightarrow>
   InputPort_close p s = (Returns (), s\<lparr>ports := (ports s)(p := (ports s p)\<lparr>open := False\<rparr>)\<rparr>)"
  by (simp add: InputPort_close_def Let_def)

lemma close_no_iip:
  "\<not> iip (ports s p) \<Longrightarrow> log_call s (ports s p) = Returns () \<Longrightarrow> is_connected (ports s p) \<Longrightarrow>
   InputPort_close p s =
     (if \<forall>c \<in> members (connections (ports s p)). drained (conns s c)
      then (Returns (), s\<lparr>ports := (ports s)(p := (ports s p)\<lparr>open := False\<rparr>)\<rparr>)
      else (if \<exists>c \<in> members (connections (ports s p)). queue_of (conns s c) = None
            then Raises AttributeError else Suspends, s))"
  by (simp add: InputPort_close_def Let_def wait_joins_cases is_connected_def)

text \<open>
  Claim C4, amended. Let an open, connected input port obtain an \<^verbatim>\<open>EndOfStream\<close>
  from the race (which it reaches only if its log call returns, that is, if its
  component has the attribute \<^verbatim>\<open>log\<close>). Then \<^verbatim>\<open>receive_packet\<close> never returns a
  packet. It closes the port and raises \<^verbatim>\<open>StopAsyncIteration\<close> exactly when the port
  holds an initial packet or every bound connection has a queue with no unfinished
  item. Otherwise the port stays open and no termination is signalled: the call raises
  \<^verbatim>\<open>AttributeError\<close> when a bound connection has no queue, and else stays suspended
  in \<^verbatim>\<open>close\<close>.
\<close>

theorem eos_closes_port:
  assumes conn: "is_connected (ports s p)"
    and opn: "open (ports s p)"
    and lg: "log_call s (ports s p) = Returns ()"
    and race: "race pop (conns s) (members (connections (ports s p))) = (Returns packet, cs1)"
    and eos: "is_eos packet"
  shows "InputPort_receive_packet pop p s =
     (if iip (ports s p) \<or> (\<forall>c \<in> members (connections (ports s p)). drained (cs1 c))
      then (Raises StopAsyncIteration,
            s\<lparr>conns := cs1, ports := (ports s)(p := (ports s p)\<lparr>open := False\<rparr>)\<rparr>)
      else (if \<exists>c \<in> members (connections (ports s p)). queue_of (cs1 c) = None
            then Raises AttributeError else Suspends,
            s\<lparr>conns := cs1\<rparr>))"
proof (cases "iip (ports s p)")
  case True
  let ?s1 = "s\<lparr>conns := cs1\<rparr>"
  let ?s2 = "?s1\<lparr>ports := (ports ?s1)(p := (ports ?s1 p)\<lparr>open := False\<rparr>)\<rparr>"
  have l1: "log_call ?s1 (ports ?s1 p) = Returns ()"
    using lg by (simp add: log_call_flag)
  have l2: "log_call ?s2 (ports ?s2 p) = Returns ()" "log_call ?s2 (ports s p) = Returns ()"
    using lg by (simp_all add: log_call_flag)
  have c1: "InputPort_close p ?s1 = (Returns (), ?s2)"
    using True l1 by (simp add: close_iip)
  have c2: "InputPort_close p ?s2 = (Returns (), ?s2)"
    using True l2 close_iip [of ?s2 p] by simp
  show ?thesis
    using True conn opn lg race eos c1 c2 l2
    by (simp add: InputPort_receive_packet_def Let_def)
next
  case False
  let ?s1 = "s\<lparr>conns := cs1\<rparr>"
  let ?s2 = "?s1\<lparr>ports := (ports s)(p := (ports s p)\<lparr>open := False\<rparr>)\<rparr>"
  have l1: "log_call ?s1 (ports ?s1 p) = Returns ()"
    using lg by (simp add: log_call_flag)
  have l2: "log_call ?s2 (ports s p) = Returns ()"
    using lg by (simp add: log_call_flag)
  have c1: "InputPort_close p ?s1 =
     (if \<forall>c \<in> members (connections (ports s p)). drained (cs1 c)
      then (Returns (), ?s2)
      else (if \<exists>c \<in> members (connections (ports s p)). queue_of (cs1 c) = None
            then Raises AttributeError else Suspends, ?s1))"
    using False l1 conn close_no_iip [of ?s1 p] by simp
  show ?thesis
    using False conn opn lg race eos l2
    by (simp add: InputPort_receive_packet_def Let_def c1)
qed

lemma sent_has_log: "has_log sent_after_close c"
  by (simp add: sent_after_close_def send_keeps out_closed_has_log)

text \<open>
  Without a logger an open, connected port does not reach the race: the first log
  call of \<^verbatim>\<open>receive_packet\<close> raises, and nothing is taken from any queue.
\<close>

lemma receive_needs_log:
  assumes "is_connected (ports s p)" and "open (ports s p)"
    and "log_call s (ports s p) \<noteq> Returns ()"
  shows "InputPort_receive_packet pop p s = (Raises AttributeError, s)"
  using assms
  by (auto simp: InputPort_receive_packet_def Let_def log_call_def split: option.splits if_splits)

text \<open>
  Claim C4 fails when the queue that delivered the \<^verbatim>\<open>EndOfStream\<close> still holds an
  item (here the value sent after \<^verbatim>\<open>out.close()\<close>): \<^verbatim>\<open>receive_packet\<close> obtains the
  \<^verbatim>\<open>EndOfStream\<close>, and then stays suspended in \<^verbatim>\<open>close\<close>, on \<^verbatim>\<open>join\<close>, with the
  port still open and nothing signalled to the caller.
\<close>

theorem eos_with_unfinished_item_suspends:
  "fst (race Min (conns sent_after_close) (members (connections (ports sent_after_close 1))))
     = Returns (EndOfStream (Some 10))
   \<and> fst (InputPort_receive_packet Min 1 sent_after_close) = Suspends
   \<and> open (ports (snd (InputPort_receive_packet Min 1 sent_after_close)) 1)"
  by (simp add: sent_conns0 sent_ports1 wired_ports1 sent_has_log recv_defs
      InputPort_receive_packet_def close_defs)

text \<open>
  After \<^verbatim>\<open>out.close()\<close> alone the queue holds the \<^verbatim>\<open>EndOfStream\<close> and nothing else:
  the input port takes it, closes and raises \<^verbatim>\<open>StopAsyncIteration\<close>.
\<close>

theorem eos_closes_port_witness:
  "is_connected (ports out_closed 1) \<and> open (ports out_closed 1)
   \<and> log_call out_closed (ports out_closed 1) = Returns ()
   \<and> fst (race Min (conns out_closed) (members (connections (ports out_closed 1))))
       = Returns (EndOfStream (Some 10))
   \<and> is_eos (EndOfStream (Some 10) :: nat packet)
   \<and> fst (InputPort_receive_packet Min 1 out_closed) = Raises StopAsyncIteration
   \<and> \<not> open (ports (snd (InputPort_receive_packet Min 1 out_closed)) 1)"
proof -
  let ?cs1 = "snd (race Min (conns out_closed) (members (connections (ports out_closed 1))))"
  have a: "is_connected (ports out_closed 1)" "open (ports out_closed 1)"
      "log_call out_closed (ports out_closed 1) = Returns ()"
    by (simp_all add: out_closed_ports1 wired_ports1 is_connected_def log_call_def
        out_closed_has_log)
  have r: "race Min (conns out_closed) (members (connections (ports out_closed 1)))
           = (Returns (EndOfStream (Some 10)), ?cs1)"
    by (simp add: out_closed_ports1 wired_ports1 out_closed_conns0 recv_defs)
  have rf: "fst (race Min (conns out_closed) (members (connections (ports out_closed 1))))
           = Returns (EndOfStream (Some 10))"
    by (simp add: out_closed_ports1 wired_ports1 out_closed_conns0 recv_defs)
  have e: "is_eos (EndOfStream (Some 10) :: nat packet)"
    by simp
  have d: "\<forall>c \<in> members (connections (ports out_closed 1)). drained (?cs1 c)"
    by (simp add: out_closed_ports1 wired_ports1 out_closed_conns0 recv_defs drained_def
        join_completes_def)
  show ?thesis
    using eos_closes_port [of out_closed 1 Min "EndOfStream (Some 10)" ?cs1, OF a r e] a rf d
    by simp
qed


section \<open>The ownership check\<close>

lemma broadcast_not_owned: "fst (broadcast S packet s) \<noteq> Raises PacketOwnedError"
  by (simp add: broadcast_def)

lemma broadcast_delivers:
  assumes "\<forall>b \<in> S. \<not> is_IIP (conns s b)" and "b \<in> S" and "conns s b = Conn k"
    and "queue k = Some q" and "\<not> full q"
  shows "conns (snd (broadcast S packet s)) b = Conn (k\<lparr>queue := Some (put packet q)\<rparr>)"
  using assms by (simp add: broadcast_def send_task_def Connection_send_def)

lemma broadcast_elsewhere:
  "b \<notin> S \<Longrightarrow> conns (snd (broadcast S packet s)) b = conns s b"
  by (simp add: broadcast_def)

lemma broadcast_log: "log_call (snd (broadcast S packet s)) = log_call s"
  by (auto simp: broadcast_def log_call_flag fun_eq_iff)

text \<open>
  On a connected output port whose log call returns, \<^verbatim>\<open>send_packet\<close> is the
  broadcast when the packet has no owner or the owner of the port, and raises
  \<^verbatim>\<open>PacketOwnedError\<close>, with nothing changed, otherwise.
\<close>

lemma ownership_check_with_log:
  assumes conn: "is_connected (ports s p)" and lg: "log_call s (ports s p) = Returns ()"
  shows "OutputPort_send_packet p packet s =
           (if owner packet = None \<or> owner packet = component (ports s p)
            then broadcast (members (connections (ports s p))) packet s
            else (Raises PacketOwnedError, s))"
proof -
  obtain r s1 where b: "broadcast (members (connections (ports s p))) packet s = (r, s1)"
    by (cases "broadcast (members (connections (ports s p))) packet s")
  have "log_call s1 = log_call s"
    using broadcast_log [of "members (connections (ports s p))" packet s] b by simp
  then show ?thesis
    using conn lg by (cases r) (auto simp: OutputPort_send_packet_def Let_def b)
qed

lemma ownership_error_needs_log:
  assumes "is_connected (ports s p)" and "owner packet \<noteq> None"
    and "owner packet \<noteq> component (ports s p)" and "log_call s (ports s p) \<noteq> Returns ()"
  shows "OutputPort_send_packet p packet s = (Raises AttributeError, s)"
  using assms
  by (auto simp: OutputPort_send_packet_def Let_def log_call_def split: option.splits if_splits)

lemma plain_wired_store:
  "ports plain_wired = ports wired" "has_log plain_wired c = False"
  "ports unowned_wired 0 = (ports wired 0)\<lparr>component := None\<rparr>"
  by (simp_all add: plain_wired_def unowned_wired_def)

text \<open>
  Claim C7 on the code. A connected output port is given a packet owned by component
  11. When the port belongs to component 10, a plain \<^verbatim>\<open>Component\<close> with no attribute
  \<^verbatim>\<open>log\<close>, and when the port belongs to no component, \<^verbatim>\<open>self.log.error(e)\<close> raises
  \<^verbatim>\<open>AttributeError\<close> before \<^verbatim>\<open>raise e\<close> is reached: the call does not fail with
  \<^verbatim>\<open>PacketOwnedError\<close>.
\<close>

theorem ownership_error_lost_in_log_call:
  "is_connected (ports plain_wired 0) \<and> component (ports plain_wired 0) = Some 10
   \<and> OutputPort_send_packet 0 (InformationPacket 7 (Some 11)) plain_wired
       = (Raises AttributeError, plain_wired)
   \<and> is_connected (ports unowned_wired 0) \<and> component (ports unowned_wired 0) = None
   \<and> OutputPort_send_packet 0 (InformationPacket 7 (Some 11)) unowned_wired
       = (Raises AttributeError, unowned_wired)"
  by (simp add: plain_wired_store wired_ports0 OutputPort_send_packet_def is_connected_def
      log_call_def Let_def)

section \<open>Receiving on all ports of a register\<close>

lemma run_tasks_ports: "map fst (fst (run_tasks pop ps s)) = ps"
  by (induction ps arbitrary: s) (simp_all add: split_beta Let_def)

lemma run_tasks_length: "length (fst (run_tasks pop ps s)) = length ps"
  using run_tasks_ports [of pop ps s] by (metis length_map)

















end
